theory Spec2Isabelle
  imports Complex_Main "HOL-Library.AList"
begin

section \<open>Python values, dictionaries and exceptions\<close>

text \<open>
  The values that travel through \<^verbatim>\<open>ConductorWorker.py\<close>: tasks are JSON objects
  decoded into Python dicts, the execution function returns an arbitrary object.
  A dict is an association list in insertion order with string keys; a float is the
  real number it denotes; \<open>PObj c b\<close> is an instance of any other class \<open>c\<close>
  (a subclass of dict included: \<^verbatim>\<open>type(resp) is not dict\<close> rejects it), where \<open>b\<close>
  is the truth value of the object, that is what \<^verbatim>\<open>bool(x)\<close> returns for it through
  \<open>__bool__\<close>, or else \<open>__len__\<close>, or else the default \<open>True\<close> of \<open>object\<close>. So
  \<^verbatim>\<open>()\<close> is \<open>PObj ''tuple'' False\<close>, \<^verbatim>\<open>b''\<close> is \<open>PObj ''bytes'' False\<close>, an empty
  \<open>OrderedDict\<close> is \<open>PObj ''OrderedDict'' False\<close> and \<^verbatim>\<open>(1, 2)\<close> is
  \<open>PObj ''tuple'' True\<close>.
\<close>

datatype pyval =
    PNone
  | PBool bool
  | PInt int
  | PFloat real
  | PStr string
  | PList "pyval list"
  | PDict "(string \<times> pyval) list"
  | PObj string bool

type_synonym dict = "(string \<times> pyval) list"

type_synonym task = dict

text \<open>
  Truth value testing, as \<^verbatim>\<open>if x:\<close> and \<^verbatim>\<open>x or y\<close> do it: \<open>None\<close>, \<open>False\<close>, a
  zero and an empty string, list or dict are falsy, and an instance of another class has
  the truth value its \<open>__bool__\<close> or \<open>__len__\<close> gives it. The test is taken to
  return.
\<close>

fun truthy :: "pyval \<Rightarrow> bool" where
  "truthy PNone = False"
| "truthy (PBool b) = b"
| "truthy (PInt i) = (i \<noteq> 0)"
| "truthy (PFloat x) = (x \<noteq> 0)"
| "truthy (PStr s) = (s \<noteq> [])"
| "truthy (PList xs) = (xs \<noteq> [])"
| "truthy (PDict d) = (d \<noteq> [])"
| "truthy (PObj c b) = b"

text \<open>\<^verbatim>\<open>x or y\<close> evaluates to \<open>x\<close> when \<open>x\<close> is truthy and to \<open>y\<close> otherwise.\<close>

definition py_or :: "pyval \<Rightarrow> pyval \<Rightarrow> pyval" where
  "py_or x y = (if truthy x then x else y)"

text \<open>
  A raised exception carries the text \<^verbatim>\<open>str(err)\<close>. The handler of \<open>execute\<close> is
  \<^verbatim>\<open>except Exception\<close>: it catches the instances of \<open>Exception\<close> and lets the other
  instances of \<open>BaseException\<close> (\<open>KeyboardInterrupt\<close>, \<open>SystemExit\<close>,
  \<open>GeneratorExit\<close>) through.
\<close>

datatype exn = Exception string | BaseException string

fun is_Exception :: "exn \<Rightarrow> bool" where
  "is_Exception (Exception m) = True"
| "is_Exception (BaseException m) = False"

fun str :: "exn \<Rightarrow> string" where
  "str (Exception m) = m"
| "str (BaseException m) = m"

text \<open>\<^verbatim>\<open>key in d\<close>, \<^verbatim>\<open>d[key]\<close> (raising \<open>KeyError\<close>) and \<^verbatim>\<open>d[key] = v\<close>.\<close>

definition contains :: "dict \<Rightarrow> string \<Rightarrow> bool" where
  "contains d key = (key \<in> set (map fst d))"

definition KeyError :: "string \<Rightarrow> exn" where
  "KeyError key = Exception ([CHR 0x27] @ key @ [CHR 0x27])"

definition getitem :: "dict \<Rightarrow> string \<Rightarrow> exn + pyval" where
  "getitem d key = (case map_of d key of None \<Rightarrow> Inl (KeyError key) | Some v \<Rightarrow> Inr v)"

definition setitem :: "dict \<Rightarrow> string \<Rightarrow> pyval \<Rightarrow> dict" where
  "setitem d key v = AList.update key v d"

section \<open>The remote task client and the worker\<close>

text \<open>
  The task client of \<^verbatim>\<open>pyconductor.conductor\<close> is not part of this file of the
  repository: its three operations are parameters. Each acts on the state \<open>'w\<close> of the
  remote side and either raises or returns.
\<close>

record 'w taskClient =
  pollForTask :: "pyval \<Rightarrow> pyval \<Rightarrow> pyval \<Rightarrow> 'w \<Rightarrow> (exn + task option) \<times> 'w"
  ackTask :: "pyval \<Rightarrow> pyval \<Rightarrow> 'w \<Rightarrow> (exn + pyval) \<times> 'w"
  updateTask :: "task \<Rightarrow> 'w \<Rightarrow> (exn + unit) \<times> 'w"

record ('c, 'w) worker =
  workflowClient :: 'c
  taskClient :: "'w taskClient"
  thread_count :: pyval
  polling_interval :: pyval
  worker_id :: pyval

text \<open>
  The calls that leave the worker, in the order they are made: the three remote
  operations, the call of the execution function, and the start of a thread that runs
  \<open>execute\<close> on a task.
\<close>

datatype event =
    PollForTask pyval pyval pyval
  | AckTask pyval pyval
  | UpdateTask task
  | ExecFunction task
  | ThreadStart task

text \<open>
  The state that the methods thread through: the remote side, the trace of calls made
  so far (oldest first) and the lines printed.
\<close>

record 'w state =
  remote :: 'w
  trace :: "event list"
  stdout :: "string list"

text \<open>
  The execution function is user code: it receives the task (and may change it in
  place), may talk to the remote side, and returns a value or raises. It yields the
  task as it left it, its outcome and the remote state. It is taken to come back, and
  values are copied: a result that shares an object with the task is not distinguished
  from one that holds an equal value.
\<close>

type_synonym 'w exec_function = "task \<Rightarrow> 'w \<Rightarrow> task \<times> (exn + pyval) \<times> 'w"

definition print :: "string \<Rightarrow> 'w state \<Rightarrow> 'w state" where
  "print line s = s\<lparr>stdout := stdout s @ [line]\<rparr>"

definition call_pollForTask ::
  "('c, 'w) worker \<Rightarrow> pyval \<Rightarrow> pyval \<Rightarrow> 'w state \<Rightarrow> (exn + task option) \<times> 'w state" where
  "call_pollForTask self taskType domain s =
     (case pollForTask (taskClient self) taskType (worker_id self) domain (remote s) of
        (r, w) \<Rightarrow>
          (r, s\<lparr>remote := w,
                trace := trace s @ [PollForTask taskType (worker_id self) domain]\<rparr>))"

definition call_ackTask ::
  "('c, 'w) worker \<Rightarrow> pyval \<Rightarrow> 'w state \<Rightarrow> (exn + pyval) \<times> 'w state" where
  "call_ackTask self taskId s =
     (case ackTask (taskClient self) taskId (worker_id self) (remote s) of
        (r, w) \<Rightarrow> (r, s\<lparr>remote := w, trace := trace s @ [AckTask taskId (worker_id self)]\<rparr>))"

definition call_updateTask ::
  "('c, 'w) worker \<Rightarrow> task \<Rightarrow> 'w state \<Rightarrow> (exn + unit) \<times> 'w state" where
  "call_updateTask self task s =
     (case updateTask (taskClient self) task (remote s) of
        (r, w) \<Rightarrow> (r, s\<lparr>remote := w, trace := trace s @ [UpdateTask task]\<rparr>))"

definition call_exec_function ::
  "'w exec_function \<Rightarrow> task \<Rightarrow> 'w state \<Rightarrow> task \<times> (exn + pyval) \<times> 'w state" where
  "call_exec_function exec_function task s =
     (case exec_function task (remote s) of
        (task', r, w) \<Rightarrow> (task', r, s\<lparr>remote := w, trace := trace s @ [ExecFunction task]\<rparr>))"

section \<open>execute\<close>

definition contract_violation :: exn where
  "contract_violation = Exception
     ''Task execution function MUST return a response as a dict with status, output and logs fields''"

text \<open>The test of line 53: the response is exactly a dict and has the three keys.\<close>

fun valid_response :: "pyval \<Rightarrow> bool" where
  "valid_response (PDict resp) = list_all (contains resp) [''status'', ''output'', ''logs'']"
| "valid_response _ = False"

fun the_dict :: "pyval \<Rightarrow> dict" where
  "the_dict (PDict d) = d"
| "the_dict _ = []"

text \<open>
  The body of the \<^verbatim>\<open>try\<close> block (lines 52 to 58). It yields the task as mutated so
  far, the exception that left the block if any, and the state.
\<close>

definition execute_try ::
  "('c, 'w) worker \<Rightarrow> task \<Rightarrow> 'w exec_function \<Rightarrow> 'w state \<Rightarrow> (exn + unit) \<times> task \<times> 'w state" where
  "execute_try self task exec_function s =
     (case call_exec_function exec_function task s of
        (task0, Inl e, s0) \<Rightarrow> (Inl e, task0, s0)
      | (task0, Inr resp, s0) \<Rightarrow>
          if \<not> valid_response resp then (Inl contract_violation, task0, s0)
          else
            (case getitem (the_dict resp) ''status'' of
               Inl e \<Rightarrow> (Inl e, task0, s0)
             | Inr status \<Rightarrow>
                 let task1 = setitem task0 ''status'' status in
                 (case getitem (the_dict resp) ''output'' of
                    Inl e \<Rightarrow> (Inl e, task1, s0)
                  | Inr output \<Rightarrow>
                      let task2 = setitem task1 ''outputData'' output in
                      (case getitem (the_dict resp) ''logs'' of
                         Inl e \<Rightarrow> (Inl e, task2, s0)
                       | Inr logs \<Rightarrow>
                           let task3 = setitem task2 ''logs'' logs in
                           (case call_updateTask self task3 s0 of
                              (r, s1) \<Rightarrow> (r, task3, s1))))))"

text \<open>
  \<open>execute\<close> (lines 50 to 62): the \<^verbatim>\<open>try\<close> block, and the handler for an
  \<open>Exception\<close> that left it. The result is what \<open>execute\<close> raises, if anything,
  the task object as \<open>execute\<close> leaves it, and the state.
\<close>

definition execute ::
  "('c, 'w) worker \<Rightarrow> task \<Rightarrow> 'w exec_function \<Rightarrow> 'w state \<Rightarrow> (exn + unit) \<times> task \<times> 'w state" where
  "execute self task exec_function s =
     (case execute_try self task exec_function s of
        (Inr u, task', s') \<Rightarrow> (Inr u, task', s')
      | (Inl err, task', s') \<Rightarrow>
          if \<not> is_Exception err then (Inl err, task', s')
          else
            let s1 = print (''Error executing task: '' @ str err) s';
                task1 = setitem task' ''status'' (PStr ''FAILED'')
            in (case call_updateTask self task1 s1 of (r, s2) \<Rightarrow> (r, task1, s2)))"

text \<open>The effect of lines 55 to 57 on the task.\<close>

definition copy_result :: "task \<Rightarrow> pyval \<Rightarrow> pyval \<Rightarrow> pyval \<Rightarrow> task" where
  "copy_result task status output logs =
     setitem (setitem (setitem task ''status'' status) ''outputData'' output) ''logs'' logs"

text \<open>The events that a run from state \<open>s\<close> to state \<open>s'\<close> added to the trace.\<close>

definition new_events :: "'w state \<Rightarrow> 'w state \<Rightarrow> event list" where
  "new_events s s' = drop (length (trace s)) (trace s')"



section \<open>poll_and_execute\<close>

text \<open>
  One pass through the body of the \<^verbatim>\<open>while True\<close> loop (lines 66 to 70). The builtin
  \<open>float\<close> and \<open>time.sleep\<close> are parameters: each returns or raises (\<open>time.sleep\<close>
  raises \<open>ValueError\<close> on a negative length). \<^verbatim>\<open>polled['taskId']\<close> raises
  \<open>KeyError\<close> on a task without that key.
\<close>

definition poll_and_execute_body ::
  "(pyval \<Rightarrow> exn + pyval) \<Rightarrow> (pyval \<Rightarrow> exn + unit) \<Rightarrow> ('c, 'w) worker \<Rightarrow> pyval \<Rightarrow>
     'w exec_function \<Rightarrow> pyval \<Rightarrow> 'w state \<Rightarrow> (exn + unit) \<times> 'w state" where
  "poll_and_execute_body py_float time_sleep self taskType exec_function domain s =
     (case py_float (polling_interval self) of
        Inl e \<Rightarrow> (Inl e, s)
      | Inr secs \<Rightarrow>
          (case time_sleep secs of
             Inl e \<Rightarrow> (Inl e, s)
           | Inr u \<Rightarrow>
               (case call_pollForTask self taskType domain s of
                  (Inl e, s1) \<Rightarrow> (Inl e, s1)
                | (Inr None, s1) \<Rightarrow> (Inr (), s1)
                | (Inr (Some polled), s1) \<Rightarrow>
                    (case getitem polled ''taskId'' of
                       Inl e \<Rightarrow> (Inl e, s1)
                     | Inr taskId \<Rightarrow>
                         (case call_ackTask self taskId s1 of
                            (Inl e, s2) \<Rightarrow> (Inl e, s2)
                          | (Inr acked, s2) \<Rightarrow>
                              if truthy acked
                              then (case execute self polled exec_function s2 of
                                      (r, task', s3) \<Rightarrow> (r, s3))
                              else (Inr (), s2))))))"


section \<open>consume\<close>

datatype flow = Continue | Break

text \<open>
  Starting the thread of lines 99 and 100 is an event of the trace. What the thread
  then does (\<open>execute\<close> on the task) runs beside the loop and is not interleaved here.
\<close>

definition thread_start :: "task \<Rightarrow> 'w state \<Rightarrow> 'w state" where
  "thread_start task s = s\<lparr>trace := trace s @ [ThreadStart task]\<rparr>"

definition consume_body ::
  "('c, 'w) worker \<Rightarrow> pyval \<Rightarrow> 'w exec_function \<Rightarrow> pyval \<Rightarrow> 'w state \<Rightarrow> (exn + flow) \<times> 'w state" where
  "consume_body self taskType exec_function domain s =
     (case call_pollForTask self taskType domain s of
        (Inl e, s1) \<Rightarrow> (Inl e, s1)
      | (Inr None, s1) \<Rightarrow> (Inr Break, s1)
      | (Inr (Some polled), s1) \<Rightarrow>
          (case getitem polled ''taskId'' of
             Inl e \<Rightarrow> (Inl e, s1)
           | Inr taskId \<Rightarrow>
               (case call_ackTask self taskId s1 of
                  (Inl e, s2) \<Rightarrow> (Inl e, s2)
                | (Inr acked, s2) \<Rightarrow>
                    if truthy acked then (Inr Continue, thread_start polled s2)
                    else (Inr Continue, s2))))"

text \<open>
  \<open>consume\<close> (lines 94 to 100); \<open>limit\<close> and \<open>check_existing_tasks\<close> are accepted and
  not used. \<open>None\<close> is the loop that never returns.
\<close>

partial_function (option) consume ::
  "('c, 'w) worker \<Rightarrow> pyval \<Rightarrow> 'w exec_function \<Rightarrow> pyval \<Rightarrow> pyval \<Rightarrow> pyval \<Rightarrow> 'w state \<Rightarrow>
     ((exn + unit) \<times> 'w state) option" where
  "consume self taskType exec_function domain limit check_existing_tasks s =
     (case consume_body self taskType exec_function domain s of
        (Inl e, s') \<Rightarrow> Some (Inl e, s')
      | (Inr Break, s') \<Rightarrow> Some (Inr (), s')
      | (Inr Continue, s') \<Rightarrow>
          consume self taskType exec_function domain limit check_existing_tasks s')"

text \<open>The state after \<open>n\<close> passes through the body of \<open>consume\<close> that all went on.\<close>

fun consume_passes ::
  "nat \<Rightarrow> ('c, 'w) worker \<Rightarrow> pyval \<Rightarrow> 'w exec_function \<Rightarrow> pyval \<Rightarrow> 'w state \<Rightarrow> 'w state option" where
  "consume_passes 0 self taskType exec_function domain s = Some s"
| "consume_passes (Suc n) self taskType exec_function domain s =
     (case consume_body self taskType exec_function domain s of
        (Inr Continue, s') \<Rightarrow> consume_passes n self taskType exec_function domain s'
      | _ \<Rightarrow> None)"

section \<open>Construction\<close>

text \<open>
  \<open>__init__\<close> (lines 39 to 48). \<open>WFClientMgr\<close> belongs to \<^verbatim>\<open>pyconductor.conductor\<close>
  and is a parameter, as are the builtin \<open>float\<close> and the module-level \<open>hostname\<close>
  (the result of \<^verbatim>\<open>socket.gethostname()\<close> when the module was loaded).
\<close>

definition ConductorWorker_init ::
  "(pyval \<Rightarrow> exn + pyval) \<Rightarrow> (pyval \<Rightarrow> exn + 'c \<times> 'w taskClient) \<Rightarrow> string \<Rightarrow>
     pyval \<Rightarrow> pyval \<Rightarrow> pyval \<Rightarrow> pyval \<Rightarrow> exn + ('c, 'w) worker" where
  "ConductorWorker_init py_float WFClientMgr hostname
       server_url thread_count_arg polling_interval_arg worker_id_arg =
     (case WFClientMgr server_url of
        Inl e \<Rightarrow> Inl e
      | Inr (wfc, tc) \<Rightarrow>
          (case py_float thread_count_arg of
             Inl e \<Rightarrow> Inl e
           | Inr tcount \<Rightarrow>
               (case py_float polling_interval_arg of
                  Inl e \<Rightarrow> Inl e
                | Inr interval \<Rightarrow>
                    Inr \<lparr>workflowClient = wfc, taskClient = tc,
                         thread_count = tcount, polling_interval = interval,
                         worker_id = py_or worker_id_arg (PStr hostname)\<rparr>)))"

text \<open>The default values of the optional arguments of \<open>__init__\<close> (line 39).\<close>

definition default_thread_count :: pyval where
  "default_thread_count = PInt 1"

definition default_polling_interval :: pyval where
  "default_polling_interval = PInt 1"

definition default_worker_id :: pyval where
  "default_worker_id = PNone"

section \<open>A scripted remote side for concrete runs\<close>

text \<open>
  A task client that answers from lists of prepared responses, one per call, and
  records the tasks that \<open>updateTask\<close> received. With a list used up, \<open>pollForTask\<close>
  returns no task, \<open>ackTask\<close> returns \<open>True\<close> and \<open>updateTask\<close> returns.
\<close>

record script =
  polls :: "(exn + task option) list"
  acks :: "(exn + pyval) list"
  updates :: "(exn + unit) list"
  received :: "task list"

definition scripted_client :: "script taskClient" where
  "scripted_client =
     \<lparr>pollForTask = (\<lambda>taskType worker domain w.
          case polls w of [] \<Rightarrow> (Inr None, w) | r # rs \<Rightarrow> (r, w\<lparr>polls := rs\<rparr>)),
      ackTask = (\<lambda>taskId worker w.
          case acks w of [] \<Rightarrow> (Inr (PBool True), w) | r # rs \<Rightarrow> (r, w\<lparr>acks := rs\<rparr>)),
      updateTask = (\<lambda>task w.
          case updates w of
            [] \<Rightarrow> (Inr (), w\<lparr>received := received w @ [task]\<rparr>)
          | r # rs \<Rightarrow> (r, w\<lparr>updates := rs, received := received w @ [task]\<rparr>))\<rparr>"

definition scripted_worker :: "(unit, script) worker" where
  "scripted_worker =
     \<lparr>workflowClient = (), taskClient = scripted_client,
      thread_count = PFloat 1, polling_interval = PFloat 1, worker_id = PStr ''worker-1''\<rparr>"

definition scripted_state ::
  "(exn + task option) list \<Rightarrow> (exn + pyval) list \<Rightarrow> (exn + unit) list \<Rightarrow> script state" where
  "scripted_state ps as us =
     \<lparr>remote = \<lparr>polls = ps, acks = as, updates = us, received = []\<rparr>, trace = [], stdout = []\<rparr>"

text \<open>Execution functions that leave the task alone and return a fixed value, or raise.\<close>

definition returning :: "pyval \<Rightarrow> script exec_function" where
  "returning v = (\<lambda>task w. (task, Inr v, w))"

definition raising :: "exn \<Rightarrow> script exec_function" where
  "raising e = (\<lambda>task w. (task, Inl e, w))"

definition task_t1 :: task where
  "task_t1 = [(''taskId'', PStr ''t1'')]"

definition completed_result :: pyval where
  "completed_result = PDict [(''status'', PStr ''COMPLETED''),
     (''output'', PDict [(''x'', PInt 1)]), (''logs'', PList [])]"

definition in_progress_result :: pyval where
  "in_progress_result = PDict [(''status'', PStr ''IN_PROGRESS''),
     (''output'', PDict []), (''logs'', PList [])]"

text \<open>The events that one pass through a loop body adds to the trace.\<close>

definition poll_and_execute_events ::
  "(pyval \<Rightarrow> exn + pyval) \<Rightarrow> (pyval \<Rightarrow> exn + unit) \<Rightarrow> ('c, 'w) worker \<Rightarrow> pyval \<Rightarrow>
     'w exec_function \<Rightarrow> pyval \<Rightarrow> 'w state \<Rightarrow> event list" where
  "poll_and_execute_events py_float time_sleep self taskType exec_function domain s =
     new_events s
       (snd (poll_and_execute_body py_float time_sleep self taskType exec_function domain s))"

definition consume_events ::
  "('c, 'w) worker \<Rightarrow> pyval \<Rightarrow> 'w exec_function \<Rightarrow> pyval \<Rightarrow> 'w state \<Rightarrow> event list" where
  "consume_events self taskType exec_function domain s =
     new_events s (snd (consume_body self taskType exec_function domain s))"

text \<open>
  Instances of the two builtin parameters for concrete runs. They are not models of
  the builtins: \<open>example_float\<close> converts a number to the float of the same value and
  refuses everything else (the builtin also parses strings and rounds large integers),
  \<open>example_sleep\<close> refuses a negative length and anything that is not a float.
\<close>

definition example_float :: "pyval \<Rightarrow> exn + pyval" where
  "example_float v =
     (case v of
        PFloat x \<Rightarrow> Inr (PFloat x)
      | PInt i \<Rightarrow> Inr (PFloat (of_int i))
      | PBool b \<Rightarrow> Inr (PFloat (if b then 1 else 0))
      | _ \<Rightarrow> Inl (Exception ''float() argument must be a string or a real number''))"

definition example_sleep :: "pyval \<Rightarrow> exn + unit" where
  "example_sleep v =
     (case v of
        PFloat x \<Rightarrow>
          if x < 0 then Inl (Exception ''sleep length must be non-negative'') else Inr ()
      | _ \<Rightarrow> Inl (Exception ''a float is required''))"

section \<open>Facts about dictionaries and the scripted client\<close>

lemma getitem_setitem: "getitem (setitem d k v) k' = (if k' = k then Inr v else getitem d k')"
  by (simp add: getitem_def setitem_def update_conv')

lemma map_of_setitem: "map_of (setitem d k v) = (map_of d)(k \<mapsto> v)"
  by (simp add: setitem_def update_conv')

lemma contains_map_of: "contains d k \<longleftrightarrow> (\<exists>v. map_of d k = Some v)"
  unfolding contains_def
  by (metis domD domI dom_map_of_conv_image_fst set_map)

lemma getitem_Inr: "getitem d k = Inr v \<longleftrightarrow> map_of d k = Some v"
  by (simp add: getitem_def split: option.splits)

lemma valid_response_iff:
  "valid_response r \<longleftrightarrow>
     (\<exists>resp status output logs. r = PDict resp \<and> getitem resp ''status'' = Inr status \<and>
        getitem resp ''output'' = Inr output \<and> getitem resp ''logs'' = Inr logs)"
  by (cases r) (auto simp: contains_map_of getitem_Inr)

lemma execute_try_raise:
  assumes "exec_function task (remote s) = (task0, Inl e, w0)"
  shows "execute_try self task exec_function s =
           (Inl e, task0, s\<lparr>remote := w0, trace := trace s @ [ExecFunction task]\<rparr>)"
  using assms by (simp add: execute_try_def call_exec_function_def)

lemma execute_try_invalid:
  assumes "exec_function task (remote s) = (task0, Inr resp, w0)" and "\<not> valid_response resp"
  shows "execute_try self task exec_function s =
           (Inl contract_violation, task0, s\<lparr>remote := w0, trace := trace s @ [ExecFunction task]\<rparr>)"
  using assms by (simp add: execute_try_def call_exec_function_def)

lemma execute_try_valid:
  assumes "exec_function task (remote s) = (task0, Inr (PDict resp), w0)"
    and "getitem resp ''status'' = Inr status"
    and "getitem resp ''output'' = Inr output"
    and "getitem resp ''logs'' = Inr logs"
    and "updateTask (taskClient self) (copy_result task0 status output logs) w0 = (u, w1)"
  shows "execute_try self task exec_function s =
           (u, copy_result task0 status output logs,
            s\<lparr>remote := w1,
              trace := trace s @ [ExecFunction task,
                UpdateTask (copy_result task0 status output logs)]\<rparr>)"
proof -
  have "valid_response (PDict resp)"
    using assms(2-4) valid_response_iff by blast
  then show ?thesis
    using assms
    by (simp add: execute_try_def call_exec_function_def call_updateTask_def copy_result_def Let_def)
qed

lemma execute_handler:
  assumes "execute_try self task exec_function s = (Inl e, task', s')"
    and "is_Exception e"
    and "updateTask (taskClient self) (setitem task' ''status'' (PStr ''FAILED'')) (remote s') = (u, w)"
  shows "execute self task exec_function s =
           (u, setitem task' ''status'' (PStr ''FAILED''),
            s'\<lparr>remote := w,
               trace := trace s' @ [UpdateTask (setitem task' ''status'' (PStr ''FAILED''))],
               stdout := stdout s' @ [''Error executing task: '' @ str e]\<rparr>)"
  using assms by (simp add: execute_def call_updateTask_def print_def Let_def)

lemma execute_no_handler:
  assumes "execute_try self task exec_function s = (r, task', s')"
    and "\<forall>e. r = Inl e \<longrightarrow> \<not> is_Exception e"
  shows "execute self task exec_function s = (r, task', s')"
  using assms by (cases r) (simp_all add: execute_def)

lemma new_events_append: "trace s' = trace s @ evs \<Longrightarrow> new_events s s' = evs"
  by (simp add: new_events_def)

lemma scripted_simps:
  "taskClient scripted_worker = scripted_client"
  "worker_id scripted_worker = PStr ''worker-1''"
  "polling_interval scripted_worker = PFloat 1"
  "updateTask scripted_client task w =
     (case updates w of
        [] \<Rightarrow> (Inr (), w\<lparr>received := received w @ [task]\<rparr>)
      | r # rs \<Rightarrow> (r, w\<lparr>updates := rs, received := received w @ [task]\<rparr>))"
  "ackTask scripted_client taskId worker w =
     (case acks w of [] \<Rightarrow> (Inr (PBool True), w) | r # rs \<Rightarrow> (r, w\<lparr>acks := rs\<rparr>))"
  "pollForTask scripted_client taskType worker domain w =
     (case polls w of [] \<Rightarrow> (Inr None, w) | r # rs \<Rightarrow> (r, w\<lparr>polls := rs\<rparr>))"
  by (simp_all add: scripted_worker_def scripted_client_def)

lemma execute_failed:
  assumes "exec_function task (remote s) = (task0, r, w0)"
    and "(\<exists>e. r = Inl e \<and> is_Exception e) \<or> (\<exists>resp. r = Inr resp \<and> \<not> valid_response resp)"
    and "updateTask (taskClient self) (setitem task0 ''status'' (PStr ''FAILED'')) w0 = (u, w1)"
  shows "execute self task exec_function s =
           (u, setitem task0 ''status'' (PStr ''FAILED''),
            s\<lparr>remote := w1,
              trace := trace s @ [ExecFunction task, UpdateTask (setitem task0 ''status'' (PStr ''FAILED''))],
              stdout := stdout s @ [''Error executing task: '' @
                (case r of Inl e \<Rightarrow> str e | Inr resp \<Rightarrow> str contract_violation)]\<rparr>)"
proof -
  let ?s0 = "s\<lparr>remote := w0, trace := trace s @ [ExecFunction task]\<rparr>"
  from assms(2) show ?thesis
  proof
    assume "\<exists>e. r = Inl e \<and> is_Exception e"
    then obtain e where e: "r = Inl e" "is_Exception e" by blast
    have "execute_try self task exec_function s = (Inl e, task0, ?s0)"
      using assms(1) e(1) by (simp add: execute_try_raise)
    from execute_handler[OF this e(2)] assms(3) show ?thesis
      by (simp add: e(1))
  next
    assume "\<exists>resp. r = Inr resp \<and> \<not> valid_response resp"
    then obtain resp where resp: "r = Inr resp" "\<not> valid_response resp" by blast
    have "execute_try self task exec_function s = (Inl contract_violation, task0, ?s0)"
      using assms(1) resp by (simp add: execute_try_invalid)
    from execute_handler[OF this] assms(3) show ?thesis
      by (simp add: resp(1) contract_violation_def)
  qed
qed

lemma execute_valid:
  assumes "exec_function task (remote s) = (task0, Inr (PDict resp), w0)"
    and "getitem resp ''status'' = Inr status"
    and "getitem resp ''output'' = Inr output"
    and "getitem resp ''logs'' = Inr logs"
    and "updateTask (taskClient self) (copy_result task0 status output logs) w0 = (u, w1)"
    and "\<forall>e. u = Inl e \<longrightarrow> \<not> is_Exception e"
  shows "execute self task exec_function s =
           (u, copy_result task0 status output logs,
            s\<lparr>remote := w1,
              trace := trace s @ [ExecFunction task,
                UpdateTask (copy_result task0 status output logs)]\<rparr>)"
  using execute_no_handler[OF execute_try_valid[of exec_function task s, OF assms(1-5)] assms(6)] .

lemma execute_valid_retry:
  assumes "exec_function task (remote s) = (task0, Inr (PDict resp), w0)"
    and "getitem resp ''status'' = Inr status"
    and "getitem resp ''output'' = Inr output"
    and "getitem resp ''logs'' = Inr logs"
    and "updateTask (taskClient self) (copy_result task0 status output logs) w0 = (Inl e, w1)"
    and "is_Exception e"
    and "updateTask (taskClient self)
           (setitem (copy_result task0 status output logs) ''status'' (PStr ''FAILED'')) w1 = (u, w2)"
  shows "execute self task exec_function s =
           (u, setitem (copy_result task0 status output logs) ''status'' (PStr ''FAILED''),
            s\<lparr>remote := w2,
              trace := trace s @ [ExecFunction task,
                UpdateTask (copy_result task0 status output logs),
                UpdateTask (setitem (copy_result task0 status output logs) ''status'' (PStr ''FAILED''))],
              stdout := stdout s @ [''Error executing task: '' @ str e]\<rparr>)"
  using execute_handler[OF execute_try_valid[of exec_function task s, OF assms(1-5)] assms(6)] assms(7)
  by simp

lemma getitem_copy_result_status:
  "getitem (copy_result task0 status out logs) ''status'' = Inr status"
  by (simp add: copy_result_def getitem_setitem)

section \<open>Facts about the loop bodies\<close>

lemma call_pollForTask_eq:
  assumes "pollForTask (taskClient self) taskType (worker_id self) domain (remote s) = (p, w1)"
  shows "call_pollForTask self taskType domain s =
           (p, s\<lparr>remote := w1, trace := trace s @ [PollForTask taskType (worker_id self) domain]\<rparr>)"
  using assms by (simp add: call_pollForTask_def)

lemma call_ackTask_eq:
  assumes "ackTask (taskClient self) taskId (worker_id self) (remote s) = (a, w2)"
  shows "call_ackTask self taskId s =
           (a, s\<lparr>remote := w2, trace := trace s @ [AckTask taskId (worker_id self)]\<rparr>)"
  using assms by (simp add: call_ackTask_def)

subsection \<open>The body of consume, case by case\<close>

lemma consume_body_poll_raises:
  assumes "pollForTask (taskClient self) taskType (worker_id self) domain (remote s) = (Inl e, w1)"
  shows "consume_body self taskType exec_function domain s =
           (Inl e, s\<lparr>remote := w1, trace := trace s @ [PollForTask taskType (worker_id self) domain]\<rparr>)"
  by (simp add: consume_body_def call_pollForTask_eq[OF assms])

lemma consume_body_no_task:
  assumes "pollForTask (taskClient self) taskType (worker_id self) domain (remote s) = (Inr None, w1)"
  shows "consume_body self taskType exec_function domain s =
           (Inr Break, s\<lparr>remote := w1, trace := trace s @ [PollForTask taskType (worker_id self) domain]\<rparr>)"
  by (simp add: consume_body_def call_pollForTask_eq[OF assms])

lemma consume_body_no_taskId:
  assumes "pollForTask (taskClient self) taskType (worker_id self) domain (remote s) = (Inr (Some polled), w1)"
    and "getitem polled ''taskId'' = Inl e"
  shows "consume_body self taskType exec_function domain s =
           (Inl e, s\<lparr>remote := w1, trace := trace s @ [PollForTask taskType (worker_id self) domain]\<rparr>)"
  by (simp add: consume_body_def call_pollForTask_eq[OF assms(1)] assms(2))

lemma consume_body_ack:
  assumes "pollForTask (taskClient self) taskType (worker_id self) domain (remote s) = (Inr (Some polled), w1)"
    and "getitem polled ''taskId'' = Inr taskId"
    and "ackTask (taskClient self) taskId (worker_id self) w1 = (a, w2)"
  shows "consume_body self taskType exec_function domain s =
           (case a of
              Inl e \<Rightarrow> (Inl e, s\<lparr>remote := w2, trace := trace s @
                  [PollForTask taskType (worker_id self) domain, AckTask taskId (worker_id self)]\<rparr>)
            | Inr acked \<Rightarrow>
                if truthy acked
                then (Inr Continue, s\<lparr>remote := w2, trace := trace s @
                  [PollForTask taskType (worker_id self) domain, AckTask taskId (worker_id self),
                   ThreadStart polled]\<rparr>)
                else (Inr Continue, s\<lparr>remote := w2, trace := trace s @
                  [PollForTask taskType (worker_id self) domain, AckTask taskId (worker_id self)]\<rparr>))"
  using assms(3)
  by (cases a) (simp_all add: consume_body_def call_pollForTask_eq[OF assms(1)] assms(2)
      call_ackTask_def thread_start_def)

subsection \<open>The body of poll_and_execute, case by case\<close>

lemma poll_and_execute_body_poll_raises:
  assumes "py_float (polling_interval self) = Inr secs" and "time_sleep secs = Inr ()"
    and "pollForTask (taskClient self) taskType (worker_id self) domain (remote s) = (Inl e, w1)"
  shows "poll_and_execute_body py_float time_sleep self taskType exec_function domain s =
           (Inl e, s\<lparr>remote := w1, trace := trace s @ [PollForTask taskType (worker_id self) domain]\<rparr>)"
  by (simp add: poll_and_execute_body_def assms(1,2) call_pollForTask_eq[OF assms(3)])

lemma poll_and_execute_body_no_task:
  assumes "py_float (polling_interval self) = Inr secs" and "time_sleep secs = Inr ()"
    and "pollForTask (taskClient self) taskType (worker_id self) domain (remote s) = (Inr None, w1)"
  shows "poll_and_execute_body py_float time_sleep self taskType exec_function domain s =
           (Inr (), s\<lparr>remote := w1, trace := trace s @ [PollForTask taskType (worker_id self) domain]\<rparr>)"
  by (simp add: poll_and_execute_body_def assms(1,2) call_pollForTask_eq[OF assms(3)])

lemma poll_and_execute_body_no_taskId:
  assumes "py_float (polling_interval self) = Inr secs" and "time_sleep secs = Inr ()"
    and "pollForTask (taskClient self) taskType (worker_id self) domain (remote s) = (Inr (Some polled), w1)"
    and "getitem polled ''taskId'' = Inl e"
  shows "poll_and_execute_body py_float time_sleep self taskType exec_function domain s =
           (Inl e, s\<lparr>remote := w1, trace := trace s @ [PollForTask taskType (worker_id self) domain]\<rparr>)"
  by (simp add: poll_and_execute_body_def assms(1,2,4) call_pollForTask_eq[OF assms(3)])

lemma poll_and_execute_body_ack:
  assumes "py_float (polling_interval self) = Inr secs" and "time_sleep secs = Inr ()"
    and "pollForTask (taskClient self) taskType (worker_id self) domain (remote s) = (Inr (Some polled), w1)"
    and "getitem polled ''taskId'' = Inr taskId"
    and "ackTask (taskClient self) taskId (worker_id self) w1 = (a, w2)"
  shows "poll_and_execute_body py_float time_sleep self taskType exec_function domain s =
           (case a of
              Inl e \<Rightarrow> (Inl e, s\<lparr>remote := w2, trace := trace s @
                  [PollForTask taskType (worker_id self) domain, AckTask taskId (worker_id self)]\<rparr>)
            | Inr acked \<Rightarrow>
                if truthy acked
                then (case execute self polled exec_function (s\<lparr>remote := w2, trace := trace s @
                        [PollForTask taskType (worker_id self) domain, AckTask taskId (worker_id self)]\<rparr>) of
                        (r, task', s3) \<Rightarrow> (r, s3))
                else (Inr (), s\<lparr>remote := w2, trace := trace s @
                  [PollForTask taskType (worker_id self) domain, AckTask taskId (worker_id self)]\<rparr>))"
  using assms(5)
  by (cases a) (simp_all add: poll_and_execute_body_def assms(1,2,4) call_pollForTask_eq[OF assms(3)]
      call_ackTask_def)

lemma poll_and_execute_body_early:
  assumes "py_float (polling_interval self) = Inl e \<or>
           (\<exists>secs e'. py_float (polling_interval self) = Inr secs \<and> time_sleep secs = Inl e')"
  shows "snd (poll_and_execute_body py_float time_sleep self taskType exec_function domain s) = s"
  using assms by (auto simp: poll_and_execute_body_def)

text \<open>Every event of execute after the first is an updateTask call.\<close>

lemma execute_trace:
  "\<exists>rest. trace (snd (snd (execute self task exec_function s))) = trace s @ ExecFunction task # rest"
proof -
  obtain task0 r s0 where c: "call_exec_function exec_function task s = (task0, r, s0)"
    by (metis prod_cases3)
  then have s0: "trace s0 = trace s @ [ExecFunction task]"
    by (auto simp: call_exec_function_def split: prod.splits)
  have "\<exists>rest. trace (snd (snd (execute_try self task exec_function s))) = trace s0 @ rest"
    using c by (auto simp: execute_try_def call_updateTask_def Let_def split: sum.splits prod.splits)
  then obtain rest where t: "trace (snd (snd (execute_try self task exec_function s))) = trace s0 @ rest"
    by blast
  obtain res task' s' where e: "execute_try self task exec_function s = (res, task', s')"
    by (metis prod_cases3)
  with t have t': "trace s' = trace s0 @ rest" by simp
  show ?thesis
  proof (cases "\<exists>err. res = Inl err \<and> is_Exception err")
    case True
    then obtain err where "res = Inl err" "is_Exception err" by blast
    then have "\<exists>rest'. trace (snd (snd (execute self task exec_function s))) = trace s' @ rest'"
      using e by (simp add: execute_def Let_def print_def call_updateTask_def split: prod.splits)
    with t' s0 show ?thesis by auto
  next
    case False
    then have "execute self task exec_function s = (res, task', s')"
      using execute_no_handler[OF e] by blast
    with t' s0 show ?thesis by simp
  qed
qed

lemma new_events_self: "new_events s s = []"
  by (simp add: new_events_def)

lemma new_events_upd:
  "new_events s (s\<lparr>remote := w, trace := trace s @ evs\<rparr>) = evs"
  by (simp add: new_events_def)

lemma poll_and_execute_body_acked_events:
  assumes "ExecFunction t \<in> set (new_events s (snd (poll_and_execute_body py_float time_sleep self taskType exec_function domain s)))
         \<or> UpdateTask t \<in> set (new_events s (snd (poll_and_execute_body py_float time_sleep self taskType exec_function domain s)))"
  shows "\<exists>polled w1 taskId acked w2 rest.
           pollForTask (taskClient self) taskType (worker_id self) domain (remote s) = (Inr (Some polled), w1)
         \<and> getitem polled ''taskId'' = Inr taskId
         \<and> ackTask (taskClient self) taskId (worker_id self) w1 = (Inr acked, w2)
         \<and> truthy acked
         \<and> new_events s (snd (poll_and_execute_body py_float time_sleep self taskType exec_function domain s)) =
             PollForTask taskType (worker_id self) domain # AckTask taskId (worker_id self)
               # ExecFunction polled # rest"
proof -
  let ?body = "poll_and_execute_body py_float time_sleep self taskType exec_function domain s"
  let ?P = "PollForTask taskType (worker_id self) domain"
  have early: False
    if "py_float (polling_interval self) = Inl e \<or>
        (\<exists>secs e'. py_float (polling_interval self) = Inr secs \<and> time_sleep secs = Inl e')" for e
    using assms poll_and_execute_body_early[where py_float=py_float and time_sleep=time_sleep, OF that] by (simp add: new_events_self)
  obtain secs where fl: "py_float (polling_interval self) = Inr secs"
    using early by (cases "py_float (polling_interval self)") auto
  have sl: "time_sleep secs = Inr ()"
    using early fl by (cases "time_sleep secs") auto
  obtain p w1 where poll: "pollForTask (taskClient self) taskType (worker_id self) domain (remote s) = (p, w1)"
    by (cases "pollForTask (taskClient self) taskType (worker_id self) domain (remote s)")
  have p_not_Inl: "p \<noteq> Inl e" for e
    using assms poll_and_execute_body_poll_raises[where py_float=py_float and time_sleep=time_sleep, OF fl sl, of taskType domain s e w1] poll
    by (auto simp: new_events_upd)
  have p_not_None: "p \<noteq> Inr None"
    using assms poll_and_execute_body_no_task[where py_float=py_float and time_sleep=time_sleep, OF fl sl, of taskType domain s w1] poll
    by (auto simp: new_events_upd)
  from p_not_Inl p_not_None obtain polled where p: "p = Inr (Some polled)"
    by (cases p) auto
  note poll' = poll[unfolded p]
  have "getitem polled ''taskId'' \<noteq> Inl e" for e
    using assms poll_and_execute_body_no_taskId[where py_float=py_float and time_sleep=time_sleep, OF fl sl poll', of e]
    by (auto simp: new_events_upd)
  then obtain taskId where tid: "getitem polled ''taskId'' = Inr taskId"
    by (cases "getitem polled ''taskId''") auto
  obtain a w2 where ack: "ackTask (taskClient self) taskId (worker_id self) w1 = (a, w2)"
    by (cases "ackTask (taskClient self) taskId (worker_id self) w1")
  note b = poll_and_execute_body_ack[where py_float=py_float and time_sleep=time_sleep, OF fl sl poll' tid ack, of exec_function]
  have "a \<noteq> Inl e" for e
    using assms b by (auto simp: new_events_upd)
  then obtain acked where a: "a = Inr acked" by (cases a) auto
  have tr: "truthy acked"
    using assms b a by (auto simp: new_events_upd split: if_splits)
  let ?s2 = "s\<lparr>remote := w2, trace := trace s @ [?P, AckTask taskId (worker_id self)]\<rparr>"
  have "snd ?body = snd (snd (execute self polled exec_function ?s2))"
    using b a tr by (simp split: prod.splits)
  moreover obtain rest where
    "trace (snd (snd (execute self polled exec_function ?s2))) = trace ?s2 @ ExecFunction polled # rest"
    using execute_trace by blast
  ultimately have "trace (snd ?body) = trace s @ (?P # AckTask taskId (worker_id self) # ExecFunction polled # rest)"
    by simp
  then have "new_events s (snd ?body) = ?P # AckTask taskId (worker_id self) # ExecFunction polled # rest"
    by (rule new_events_append)
  with poll' tid ack a tr show ?thesis by blast
qed

lemma poll_and_execute_body_unacked_events:
  "(\<forall>w1. pollForTask (taskClient self) taskType (worker_id self) domain (remote s) = (Inr None, w1) \<longrightarrow>
       set (new_events s (snd (poll_and_execute_body py_float time_sleep self taskType exec_function domain s)))
         \<subseteq> {PollForTask taskType (worker_id self) domain})
   \<and> (\<forall>polled w1 taskId acked w2.
         pollForTask (taskClient self) taskType (worker_id self) domain (remote s) = (Inr (Some polled), w1)
         \<and> getitem polled ''taskId'' = Inr taskId
         \<and> ackTask (taskClient self) taskId (worker_id self) w1 = (Inr acked, w2)
         \<and> \<not> truthy acked \<longrightarrow>
       set (new_events s (snd (poll_and_execute_body py_float time_sleep self taskType exec_function domain s)))
         \<subseteq> {PollForTask taskType (worker_id self) domain, AckTask taskId (worker_id self)})"
proof (cases "py_float (polling_interval self) = Inl (projl (py_float (polling_interval self))) \<or>
        (\<exists>secs e'. py_float (polling_interval self) = Inr secs \<and> time_sleep secs = Inl e')")
  case True
  from poll_and_execute_body_early[where py_float=py_float and time_sleep=time_sleep, OF this] show ?thesis
    by (simp add: new_events_self)
next
  case False
  then obtain secs where fl: "py_float (polling_interval self) = Inr secs"
    by (cases "py_float (polling_interval self)") auto
  with False have sl: "time_sleep secs = Inr ()"
    by (cases "time_sleep secs") auto
  show ?thesis
    using poll_and_execute_body_no_task[where py_float=py_float and time_sleep=time_sleep, OF fl sl, of taskType domain s _ exec_function]
      poll_and_execute_body_ack[where py_float=py_float and time_sleep=time_sleep, OF fl sl, of taskType domain s _ _ _ _ _ exec_function]
    by (auto simp: new_events_upd)
qed

lemma consume_body_started_events:
  assumes "ThreadStart t \<in> set (new_events s (snd (consume_body self taskType exec_function domain s)))"
  shows "\<exists>w1 taskId acked w2.
           pollForTask (taskClient self) taskType (worker_id self) domain (remote s) = (Inr (Some t), w1)
         \<and> getitem t ''taskId'' = Inr taskId
         \<and> ackTask (taskClient self) taskId (worker_id self) w1 = (Inr acked, w2)
         \<and> truthy acked
         \<and> new_events s (snd (consume_body self taskType exec_function domain s)) =
             [PollForTask taskType (worker_id self) domain, AckTask taskId (worker_id self), ThreadStart t]"
proof -
  obtain p w1 where poll: "pollForTask (taskClient self) taskType (worker_id self) domain (remote s) = (p, w1)"
    by (cases "pollForTask (taskClient self) taskType (worker_id self) domain (remote s)")
  have "p \<noteq> Inl e" for e
    using assms consume_body_poll_raises[of self taskType domain s e w1 exec_function] poll
    by (auto simp: new_events_upd)
  moreover have "p \<noteq> Inr None"
    using assms consume_body_no_task[of self taskType domain s w1 exec_function] poll
    by (auto simp: new_events_upd)
  ultimately obtain polled where p: "p = Inr (Some polled)"
    by (cases p) auto
  note poll' = poll[unfolded p]
  have "getitem polled ''taskId'' \<noteq> Inl e" for e
    using assms consume_body_no_taskId[OF poll', of e exec_function]
    by (auto simp: new_events_upd)
  then obtain taskId where tid: "getitem polled ''taskId'' = Inr taskId"
    by (cases "getitem polled ''taskId''") auto
  obtain a w2 where ack: "ackTask (taskClient self) taskId (worker_id self) w1 = (a, w2)"
    by (cases "ackTask (taskClient self) taskId (worker_id self) w1")
  note b = consume_body_ack[OF poll' tid ack, of exec_function]
  have "a \<noteq> Inl e" for e
    using assms b by (auto simp: new_events_upd)
  then obtain acked where a: "a = Inr acked" by (cases a) auto
  have tr: "truthy acked"
    using assms b a by (auto simp: new_events_upd split: if_splits)
  have "new_events s (snd (consume_body self taskType exec_function domain s)) =
          [PollForTask taskType (worker_id self) domain, AckTask taskId (worker_id self), ThreadStart polled]"
    using b a tr by (simp add: new_events_upd)
  with assms poll' tid ack a tr show ?thesis by auto
qed

lemma consume_body_unacked_events:
  "(\<forall>w1. pollForTask (taskClient self) taskType (worker_id self) domain (remote s) = (Inr None, w1) \<longrightarrow>
       new_events s (snd (consume_body self taskType exec_function domain s))
         = [PollForTask taskType (worker_id self) domain])
   \<and> (\<forall>polled w1 taskId acked w2.
         pollForTask (taskClient self) taskType (worker_id self) domain (remote s) = (Inr (Some polled), w1)
         \<and> getitem polled ''taskId'' = Inr taskId
         \<and> ackTask (taskClient self) taskId (worker_id self) w1 = (Inr acked, w2)
         \<and> \<not> truthy acked \<longrightarrow>
       new_events s (snd (consume_body self taskType exec_function domain s))
         = [PollForTask taskType (worker_id self) domain, AckTask taskId (worker_id self)])"
  using consume_body_no_task[of self taskType domain s _ exec_function]
    consume_body_ack[of self taskType domain s _ _ _ _ _ exec_function]
  by (auto simp: new_events_upd)

subsection \<open>One unfolding of each loop\<close>

lemma consume_break:
  assumes "consume_body self taskType exec_function domain s = (Inr Break, s')"
  shows "consume self taskType exec_function domain limit check_existing_tasks s = Some (Inr (), s')"
  by (subst consume.simps) (simp add: assms)


lemma consume_continue:
  assumes "consume_body self taskType exec_function domain s = (Inr Continue, s')"
  shows "consume self taskType exec_function domain limit check_existing_tasks s =
           consume self taskType exec_function domain limit check_existing_tasks s'"
  by (subst consume.simps) (simp add: assms)



text \<open>The definitions that a concrete run unfolds.\<close>

lemmas run_defs =
  poll_and_execute_body_def consume_body_def call_pollForTask_def call_ackTask_def
  call_updateTask_def call_exec_function_def thread_start_def execute_def execute_try_def
  print_def getitem_def setitem_def contains_def returning_def raising_def completed_result_def
  task_t1_def example_float_def example_sleep_def scripted_simps scripted_state_def Let_def

section \<open>Properties of execute\<close>

text \<open>
  C1. When the execution function returns a dict that holds \<open>status\<close>, \<open>output\<close> and
  \<open>logs\<close>, \<open>execute\<close> copies them into the task under \<open>status\<close>, \<open>outputData\<close>
  and \<open>logs\<close> and then calls \<open>updateTask\<close> with the task so changed: that call is the
  first thing \<open>execute\<close> does after the execution function returns, the task it
  receives maps the three keys to the three values and every other key as the task did,
  and when the call returns, \<open>execute\<close> returns with that task.
\<close>

theorem execute_copies_result:
  assumes "exec_function task (remote s) = (task0, Inr (PDict resp), w0)"
    and "getitem resp ''status'' = Inr status"
    and "getitem resp ''output'' = Inr output"
    and "getitem resp ''logs'' = Inr logs"
  shows "(\<exists>rest. trace (snd (snd (execute self task exec_function s))) =
            trace s @ [ExecFunction task, UpdateTask (copy_result task0 status output logs)] @ rest)
       \<and> map_of (copy_result task0 status output logs) =
            (map_of task0)(''status'' \<mapsto> status, ''outputData'' \<mapsto> output, ''logs'' \<mapsto> logs)
       \<and> (\<forall>w1. updateTask (taskClient self) (copy_result task0 status output logs) w0 = (Inr (), w1) \<longrightarrow>
            execute self task exec_function s =
              (Inr (), copy_result task0 status output logs,
               s\<lparr>remote := w1,
                 trace := trace s @ [ExecFunction task,
                   UpdateTask (copy_result task0 status output logs)]\<rparr>))"
proof -
  let ?t = "copy_result task0 status output logs"
  obtain u w1 where upd: "updateTask (taskClient self) ?t w0 = (u, w1)"
    by (cases "updateTask (taskClient self) ?t w0")
  let ?s1 = "s\<lparr>remote := w1, trace := trace s @ [ExecFunction task, UpdateTask ?t]\<rparr>"
  have tr: "execute_try self task exec_function s = (u, ?t, ?s1)"
    by (rule execute_try_valid[of exec_function task s, OF assms upd])
  have A: "\<exists>rest. trace (snd (snd (execute self task exec_function s))) =
            trace s @ [ExecFunction task, UpdateTask ?t] @ rest"
  proof (cases "\<exists>e. u = Inl e \<and> is_Exception e")
    case True
    then obtain e where e: "u = Inl e" "is_Exception e" by blast
    obtain u' w2 where "updateTask (taskClient self) (setitem ?t ''status'' (PStr ''FAILED'')) (remote ?s1) = (u', w2)"
      by (cases "updateTask (taskClient self) (setitem ?t ''status'' (PStr ''FAILED'')) (remote ?s1)")
    from execute_handler[OF tr[unfolded e(1)] e(2) this] show ?thesis by simp
  next
    case False
    then have "execute self task exec_function s = (u, ?t, ?s1)"
      using execute_no_handler[OF tr] by blast
    then show ?thesis by simp
  qed
  have B: "map_of ?t = (map_of task0)(''status'' \<mapsto> status, ''outputData'' \<mapsto> output, ''logs'' \<mapsto> logs)"
    by (simp add: copy_result_def map_of_setitem)
  have C: "execute self task exec_function s = (Inr (), ?t, s\<lparr>remote := w, trace := trace s @ [ExecFunction task, UpdateTask ?t]\<rparr>)"
    if "updateTask (taskClient self) ?t w0 = (Inr (), w)" for w
    using execute_no_handler[OF execute_try_valid[of exec_function task s, OF assms that]] by simp
  from A B C show ?thesis by blast
qed

theorem execute_copies_result_witness:
  "execute scripted_worker task_t1 (returning completed_result) (scripted_state [] [] []) =
     (Inr (),
      [(''taskId'', PStr ''t1''), (''status'', PStr ''COMPLETED''),
       (''outputData'', PDict [(''x'', PInt 1)]), (''logs'', PList [])],
      \<lparr>remote = \<lparr>polls = [], acks = [], updates = [],
         received = [[(''taskId'', PStr ''t1''), (''status'', PStr ''COMPLETED''),
           (''outputData'', PDict [(''x'', PInt 1)]), (''logs'', PList [])]]\<rparr>,
       trace = [ExecFunction [(''taskId'', PStr ''t1'')],
         UpdateTask [(''taskId'', PStr ''t1''), (''status'', PStr ''COMPLETED''),
           (''outputData'', PDict [(''x'', PInt 1)]), (''logs'', PList [])]],
       stdout = []\<rparr>)"
proof -
  let ?resp = "[(''status'', PStr ''COMPLETED''), (''output'', PDict [(''x'', PInt 1)]), (''logs'', PList [])]"
  have h1: "returning completed_result task_t1 (remote (scripted_state [] [] []))
              = (task_t1, Inr (PDict ?resp), remote (scripted_state [] [] []))"
    by (simp add: returning_def completed_result_def)
  have h2: "getitem ?resp ''status'' = Inr (PStr ''COMPLETED'')"
    and h3: "getitem ?resp ''output'' = Inr (PDict [(''x'', PInt 1)])"
    and h4: "getitem ?resp ''logs'' = Inr (PList [])"
    by (simp_all add: getitem_def)
  show ?thesis
    using execute_copies_result[of "returning completed_result" task_t1 "scripted_state [] [] []", OF h1 h2 h3 h4, of scripted_worker]
    by (simp add: scripted_simps scripted_state_def copy_result_def setitem_def task_t1_def)
qed



text \<open>
  C9. When the result is well formed and the first \<open>updateTask\<close> raises an
  \<open>Exception\<close>, \<open>execute\<close> prints it, overwrites the status with \<open>FAILED\<close>, keeps
  \<open>outputData\<close> and \<open>logs\<close> as copied from the result, calls \<open>updateTask\<close> a second
  time with that task, and raises exactly what the second call raises, if anything.
\<close>

theorem execute_update_raises:
  assumes "exec_function task (remote s) = (task0, Inr (PDict resp), w0)"
    and "getitem resp ''status'' = Inr status"
    and "getitem resp ''output'' = Inr output"
    and "getitem resp ''logs'' = Inr logs"
    and "updateTask (taskClient self) (copy_result task0 status output logs) w0 = (Inl e, w1)"
    and "is_Exception e"
    and "updateTask (taskClient self)
           (setitem (copy_result task0 status output logs) ''status'' (PStr ''FAILED'')) w1 = (u, w2)"
  shows "execute self task exec_function s =
           (u, setitem (copy_result task0 status output logs) ''status'' (PStr ''FAILED''),
            s\<lparr>remote := w2,
              trace := trace s @ [ExecFunction task,
                UpdateTask (copy_result task0 status output logs),
                UpdateTask (setitem (copy_result task0 status output logs) ''status'' (PStr ''FAILED''))],
              stdout := stdout s @ [''Error executing task: '' @ str e]\<rparr>)
       \<and> getitem (setitem (copy_result task0 status output logs) ''status'' (PStr ''FAILED'')) ''status''
           = Inr (PStr ''FAILED'')
       \<and> getitem (setitem (copy_result task0 status output logs) ''status'' (PStr ''FAILED'')) ''outputData''
           = Inr output
       \<and> getitem (setitem (copy_result task0 status output logs) ''status'' (PStr ''FAILED'')) ''logs''
           = Inr logs"
  using execute_valid_retry[of exec_function task s, OF assms]
  by (simp add: getitem_setitem copy_result_def)

theorem execute_update_raises_witness:
  "execute scripted_worker task_t1 (returning completed_result)
     (scripted_state [] [] [Inl (Exception ''503'')]) =
     (Inr (),
      [(''taskId'', PStr ''t1''), (''status'', PStr ''FAILED''),
       (''outputData'', PDict [(''x'', PInt 1)]), (''logs'', PList [])],
      \<lparr>remote = \<lparr>polls = [], acks = [], updates = [],
         received = [[(''taskId'', PStr ''t1''), (''status'', PStr ''COMPLETED''),
                      (''outputData'', PDict [(''x'', PInt 1)]), (''logs'', PList [])],
                     [(''taskId'', PStr ''t1''), (''status'', PStr ''FAILED''),
                      (''outputData'', PDict [(''x'', PInt 1)]), (''logs'', PList [])]]\<rparr>,
       trace = [ExecFunction [(''taskId'', PStr ''t1'')],
         UpdateTask [(''taskId'', PStr ''t1''), (''status'', PStr ''COMPLETED''),
           (''outputData'', PDict [(''x'', PInt 1)]), (''logs'', PList [])],
         UpdateTask [(''taskId'', PStr ''t1''), (''status'', PStr ''FAILED''),
           (''outputData'', PDict [(''x'', PInt 1)]), (''logs'', PList [])]],
       stdout = [''Error executing task: 503'']\<rparr>)"
proof -
  let ?resp = "[(''status'', PStr ''COMPLETED''), (''output'', PDict [(''x'', PInt 1)]), (''logs'', PList [])]"
  let ?s = "scripted_state [] [] [Inl (Exception ''503'')]"
  let ?t = "copy_result task_t1 (PStr ''COMPLETED'') (PDict [(''x'', PInt 1)]) (PList [])"
  have t: "?t = [(''taskId'', PStr ''t1''), (''status'', PStr ''COMPLETED''),
           (''outputData'', PDict [(''x'', PInt 1)]), (''logs'', PList [])]"
    by (simp add: copy_result_def setitem_def task_t1_def)
  have h1: "returning completed_result task_t1 (remote ?s) = (task_t1, Inr (PDict ?resp), remote ?s)"
    by (simp add: returning_def completed_result_def)
  have h2: "getitem ?resp ''status'' = Inr (PStr ''COMPLETED'')"
    and h3: "getitem ?resp ''output'' = Inr (PDict [(''x'', PInt 1)])"
    and h4: "getitem ?resp ''logs'' = Inr (PList [])"
    by (simp_all add: getitem_def)
  have h5: "updateTask (taskClient scripted_worker) ?t (remote ?s) =
              (Inl (Exception ''503''), \<lparr>polls = [], acks = [], updates = [], received = [?t]\<rparr>)"
    by (simp add: scripted_simps scripted_state_def)
  have h6: "is_Exception (Exception ''503'')" by simp
  have h7: "updateTask (taskClient scripted_worker) (setitem ?t ''status'' (PStr ''FAILED''))
              \<lparr>polls = [], acks = [], updates = [], received = [?t]\<rparr> =
              (Inr (), \<lparr>polls = [], acks = [], updates = [],
                 received = [?t, setitem ?t ''status'' (PStr ''FAILED'')]\<rparr>)"
    by (simp add: scripted_simps)
  show ?thesis
    using execute_update_raises[of "returning completed_result" task_t1 ?s, OF h1 h2 h3 h4 h5 h6 h7]
    by (simp add: copy_result_def setitem_def scripted_state_def task_t1_def)
qed





text \<open>
  C6 claims that the reported status is always \<open>COMPLETED\<close> or \<open>FAILED\<close>, whatever
  the execution function puts into the \<open>status\<close> of its result. Line 55 copies that
  value without looking at it: a result with the status \<open>IN_PROGRESS\<close> is reported
  with the status \<open>IN_PROGRESS\<close>.
\<close>

theorem execute_status_closed_set_counterexample:
  "UpdateTask [(''taskId'', PStr ''t1''), (''status'', PStr ''IN_PROGRESS''),
               (''outputData'', PDict []), (''logs'', PList [])]
     \<in> set (trace (snd (snd (execute scripted_worker task_t1 (returning in_progress_result)
                                (scripted_state [] [] [])))))
   \<and> getitem [(''taskId'', PStr ''t1''), (''status'', PStr ''IN_PROGRESS''),
               (''outputData'', PDict []), (''logs'', PList [])] ''status'' = Inr (PStr ''IN_PROGRESS'')
   \<and> PStr ''IN_PROGRESS'' \<notin> {PStr ''COMPLETED'', PStr ''FAILED''}"
  by (simp add: execute_def execute_try_def call_exec_function_def call_updateTask_def
      returning_def in_progress_result_def getitem_def setitem_def contains_def
      scripted_simps scripted_state_def task_t1_def Let_def)

text \<open>
  C6, amended. Every task that \<open>execute\<close> passes to \<open>updateTask\<close> has a status, and
  that status is either \<open>FAILED\<close> or the value the execution function placed in the
  \<open>status\<close> field of its result.
\<close>

theorem execute_reported_status:
  assumes "exec_function task (remote s) = (task0, r, w0)"
    and "UpdateTask t \<in> set (new_events s (snd (snd (execute self task exec_function s))))"
  shows "getitem t ''status'' = Inr (PStr ''FAILED'')
       \<or> (\<exists>resp status. r = Inr (PDict resp) \<and> getitem resp ''status'' = Inr status
             \<and> getitem t ''status'' = Inr status)"
proof -
  let ?failed = "setitem task0 ''status'' (PStr ''FAILED'')"
  have failed: ?thesis
    if a: "(\<exists>e. r = Inl e \<and> is_Exception e) \<or> (\<exists>resp. r = Inr resp \<and> \<not> valid_response resp)"
  proof -
    obtain u w1 where "updateTask (taskClient self) ?failed w0 = (u, w1)"
      by (cases "updateTask (taskClient self) ?failed w0")
    from execute_failed[of exec_function task s, OF assms(1) a this]
    have "trace (snd (snd (execute self task exec_function s))) =
            trace s @ [ExecFunction task, UpdateTask ?failed]"
      by simp
    then have "new_events s (snd (snd (execute self task exec_function s))) =
            [ExecFunction task, UpdateTask ?failed]"
      by (rule new_events_append)
    with assms(2) have "t = ?failed" by simp
    then show ?thesis by (simp add: getitem_setitem)
  qed
  show ?thesis
  proof (cases r)
    case (Inl e)
    show ?thesis
    proof (cases "is_Exception e")
      case True
      with Inl show ?thesis using failed by blast
    next
      case False
      have "execute_try self task exec_function s =
              (Inl e, task0, s\<lparr>remote := w0, trace := trace s @ [ExecFunction task]\<rparr>)"
        using assms(1) Inl by (simp add: execute_try_raise)
      from execute_no_handler[OF this] False
      have "trace (snd (snd (execute self task exec_function s))) = trace s @ [ExecFunction task]"
        by simp
      then have "new_events s (snd (snd (execute self task exec_function s))) = [ExecFunction task]"
        by (rule new_events_append)
      with assms(2) show ?thesis by simp
    qed
  next
    case (Inr v)
    show ?thesis
    proof (cases "valid_response v")
      case False
      with Inr show ?thesis using failed by blast
    next
      case True
      then obtain resp status out logs where v: "v = PDict resp"
        and g: "getitem resp ''status'' = Inr status" "getitem resp ''output'' = Inr out"
          "getitem resp ''logs'' = Inr logs"
        using valid_response_iff by blast
      let ?t = "copy_result task0 status out logs"
      from assms(1) Inr v have ex: "exec_function task (remote s) = (task0, Inr (PDict resp), w0)"
        by simp
      obtain u w1 where upd: "updateTask (taskClient self) ?t w0 = (u, w1)"
        by (cases "updateTask (taskClient self) ?t w0")
      have "t = ?t \<or> t = setitem ?t ''status'' (PStr ''FAILED'')"
      proof (cases "\<exists>e. u = Inl e \<and> is_Exception e")
        case True
        then obtain e where e: "u = Inl e" "is_Exception e" by blast
        obtain u' w2 where "updateTask (taskClient self) (setitem ?t ''status'' (PStr ''FAILED'')) w1 = (u', w2)"
          by (cases "updateTask (taskClient self) (setitem ?t ''status'' (PStr ''FAILED'')) w1")
        from execute_valid_retry[of exec_function task s, OF ex g upd[unfolded e(1)] e(2) this]
        have "trace (snd (snd (execute self task exec_function s))) =
                trace s @ [ExecFunction task, UpdateTask ?t,
                  UpdateTask (setitem ?t ''status'' (PStr ''FAILED''))]"
          by simp
        then have "new_events s (snd (snd (execute self task exec_function s))) =
                [ExecFunction task, UpdateTask ?t, UpdateTask (setitem ?t ''status'' (PStr ''FAILED''))]"
          by (rule new_events_append)
        with assms(2) show ?thesis by auto
      next
        case False
        then have "\<forall>e. u = Inl e \<longrightarrow> \<not> is_Exception e" by blast
        from execute_valid[of exec_function task s, OF ex g upd this]
        have "trace (snd (snd (execute self task exec_function s))) =
                trace s @ [ExecFunction task, UpdateTask ?t]"
          by simp
        then have "new_events s (snd (snd (execute self task exec_function s))) =
                [ExecFunction task, UpdateTask ?t]"
          by (rule new_events_append)
        with assms(2) show ?thesis by simp
      qed
      then show ?thesis
      proof
        assume "t = ?t"
        then have "getitem t ''status'' = Inr status"
          by (simp add: getitem_copy_result_status)
        with Inr v g(1) show ?thesis by blast
      next
        assume "t = setitem ?t ''status'' (PStr ''FAILED'')"
        then show ?thesis by (simp add: getitem_setitem)
      qed
    qed
  qed
qed

theorem execute_reported_status_witness:
  "UpdateTask [(''taskId'', PStr ''t1''), (''status'', PStr ''IN_PROGRESS''),
               (''outputData'', PDict []), (''logs'', PList [])]
     \<in> set (new_events (scripted_state [] [] [])
              (snd (snd (execute scripted_worker task_t1 (returning in_progress_result)
                           (scripted_state [] [] [])))))
   \<and> (getitem [(''taskId'', PStr ''t1''), (''status'', PStr ''IN_PROGRESS''),
               (''outputData'', PDict []), (''logs'', PList [])] ''status'' = Inr (PStr ''FAILED'')
      \<or> (\<exists>resp status. (Inr in_progress_result :: exn + pyval) = Inr (PDict resp)
            \<and> getitem resp ''status'' = Inr status
            \<and> getitem [(''taskId'', PStr ''t1''), (''status'', PStr ''IN_PROGRESS''),
               (''outputData'', PDict []), (''logs'', PList [])] ''status'' = Inr status))"
proof -
  let ?s = "scripted_state [] [] []"
  let ?t = "[(''taskId'', PStr ''t1''), (''status'', PStr ''IN_PROGRESS''),
               (''outputData'', PDict []), (''logs'', PList [])]"
  have a: "returning in_progress_result task_t1 (remote ?s) = (task_t1, Inr in_progress_result, remote ?s)"
    by (simp add: returning_def)
  have b: "UpdateTask ?t \<in> set (new_events ?s
             (snd (snd (execute scripted_worker task_t1 (returning in_progress_result) ?s))))"
    by (simp add: execute_def execute_try_def call_exec_function_def call_updateTask_def
      returning_def in_progress_result_def getitem_def setitem_def contains_def new_events_def
      scripted_simps scripted_state_def task_t1_def Let_def)
  show ?thesis
    using execute_reported_status[of "returning in_progress_result" task_t1 ?s, OF a b] b
    by blast
qed

section \<open>Properties of the polling loops\<close>

text \<open>
  C4. In one pass through the body of \<open>poll_and_execute\<close> or of \<open>consume\<close>, the
  execution of a task (the call of the execution function and every \<open>updateTask\<close> in
  \<open>poll_and_execute\<close>, the start of the thread that runs \<open>execute\<close> in \<open>consume\<close>)
  happens only for the task that \<open>pollForTask\<close> returned, and only after \<open>ackTask\<close>
  was called with its \<open>taskId\<close> and the worker id and returned a truthy value. When
  \<open>pollForTask\<close> returns no task the pass makes no call but the poll, and when
  \<open>ackTask\<close> returns a falsy value it makes no call but the poll and the
  acknowledgment.
\<close>

theorem execute_only_after_ack:
  "(\<forall>t. ExecFunction t \<in> set (poll_and_execute_events py_float time_sleep self taskType exec_function domain s)
        \<or> UpdateTask t \<in> set (poll_and_execute_events py_float time_sleep self taskType exec_function domain s)
      \<longrightarrow> (\<exists>polled w1 taskId acked w2 rest.
             pollForTask (taskClient self) taskType (worker_id self) domain (remote s) = (Inr (Some polled), w1)
           \<and> getitem polled ''taskId'' = Inr taskId
           \<and> ackTask (taskClient self) taskId (worker_id self) w1 = (Inr acked, w2)
           \<and> truthy acked
           \<and> poll_and_execute_events py_float time_sleep self taskType exec_function domain s =
               PollForTask taskType (worker_id self) domain # AckTask taskId (worker_id self)
                 # ExecFunction polled # rest))
   \<and> (\<forall>t. ThreadStart t \<in> set (consume_events self taskType exec_function domain s)
      \<longrightarrow> (\<exists>w1 taskId acked w2.
             pollForTask (taskClient self) taskType (worker_id self) domain (remote s) = (Inr (Some t), w1)
           \<and> getitem t ''taskId'' = Inr taskId
           \<and> ackTask (taskClient self) taskId (worker_id self) w1 = (Inr acked, w2)
           \<and> truthy acked
           \<and> consume_events self taskType exec_function domain s =
               [PollForTask taskType (worker_id self) domain, AckTask taskId (worker_id self),
                ThreadStart t]))
   \<and> (\<forall>w1. pollForTask (taskClient self) taskType (worker_id self) domain (remote s) = (Inr None, w1)
      \<longrightarrow> set (poll_and_execute_events py_float time_sleep self taskType exec_function domain s)
             \<subseteq> {PollForTask taskType (worker_id self) domain}
        \<and> consume_events self taskType exec_function domain s
             = [PollForTask taskType (worker_id self) domain])
   \<and> (\<forall>polled w1 taskId acked w2.
         pollForTask (taskClient self) taskType (worker_id self) domain (remote s) = (Inr (Some polled), w1)
         \<and> getitem polled ''taskId'' = Inr taskId
         \<and> ackTask (taskClient self) taskId (worker_id self) w1 = (Inr acked, w2)
         \<and> \<not> truthy acked
      \<longrightarrow> set (poll_and_execute_events py_float time_sleep self taskType exec_function domain s)
             \<subseteq> {PollForTask taskType (worker_id self) domain, AckTask taskId (worker_id self)}
        \<and> consume_events self taskType exec_function domain s
             = [PollForTask taskType (worker_id self) domain, AckTask taskId (worker_id self)])"
proof (intro conjI allI impI)
  fix t
  assume "ExecFunction t \<in> set (poll_and_execute_events py_float time_sleep self taskType exec_function domain s)
        \<or> UpdateTask t \<in> set (poll_and_execute_events py_float time_sleep self taskType exec_function domain s)"
  then show "\<exists>polled w1 taskId acked w2 rest.
             pollForTask (taskClient self) taskType (worker_id self) domain (remote s) = (Inr (Some polled), w1)
           \<and> getitem polled ''taskId'' = Inr taskId
           \<and> ackTask (taskClient self) taskId (worker_id self) w1 = (Inr acked, w2)
           \<and> truthy acked
           \<and> poll_and_execute_events py_float time_sleep self taskType exec_function domain s =
               PollForTask taskType (worker_id self) domain # AckTask taskId (worker_id self)
                 # ExecFunction polled # rest"
    unfolding poll_and_execute_events_def by (rule poll_and_execute_body_acked_events)
next
  fix t
  assume "ThreadStart t \<in> set (consume_events self taskType exec_function domain s)"
  then show "\<exists>w1 taskId acked w2.
             pollForTask (taskClient self) taskType (worker_id self) domain (remote s) = (Inr (Some t), w1)
           \<and> getitem t ''taskId'' = Inr taskId
           \<and> ackTask (taskClient self) taskId (worker_id self) w1 = (Inr acked, w2)
           \<and> truthy acked
           \<and> consume_events self taskType exec_function domain s =
               [PollForTask taskType (worker_id self) domain, AckTask taskId (worker_id self),
                ThreadStart t]"
    unfolding consume_events_def by (rule consume_body_started_events)
next
  fix w1
  assume a: "pollForTask (taskClient self) taskType (worker_id self) domain (remote s) = (Inr None, w1)"
  show "set (poll_and_execute_events py_float time_sleep self taskType exec_function domain s)
             \<subseteq> {PollForTask taskType (worker_id self) domain}"
    unfolding poll_and_execute_events_def
    using poll_and_execute_body_unacked_events[of self taskType domain s py_float time_sleep exec_function] a
    by blast
  show "consume_events self taskType exec_function domain s = [PollForTask taskType (worker_id self) domain]"
    unfolding consume_events_def
    using consume_body_unacked_events[of self taskType domain s exec_function] a by blast
next
  fix polled w1 taskId acked w2
  assume a: "pollForTask (taskClient self) taskType (worker_id self) domain (remote s) = (Inr (Some polled), w1)
         \<and> getitem polled ''taskId'' = Inr taskId
         \<and> ackTask (taskClient self) taskId (worker_id self) w1 = (Inr acked, w2)
         \<and> \<not> truthy acked"
  show "set (poll_and_execute_events py_float time_sleep self taskType exec_function domain s)
             \<subseteq> {PollForTask taskType (worker_id self) domain, AckTask taskId (worker_id self)}"
    unfolding poll_and_execute_events_def
    using poll_and_execute_body_unacked_events[of self taskType domain s py_float time_sleep exec_function] a
    by blast
  show "consume_events self taskType exec_function domain s
             = [PollForTask taskType (worker_id self) domain, AckTask taskId (worker_id self)]"
    unfolding consume_events_def
    using consume_body_unacked_events[of self taskType domain s exec_function] a by blast
qed

theorem execute_only_after_ack_witness:
  "poll_and_execute_events example_float example_sleep scripted_worker (PStr ''T'')
       (returning completed_result) PNone (scripted_state [Inr (Some task_t1)] [] []) =
     [PollForTask (PStr ''T'') (PStr ''worker-1'') PNone, AckTask (PStr ''t1'') (PStr ''worker-1''),
      ExecFunction [(''taskId'', PStr ''t1'')],
      UpdateTask [(''taskId'', PStr ''t1''), (''status'', PStr ''COMPLETED''),
        (''outputData'', PDict [(''x'', PInt 1)]), (''logs'', PList [])]]
   \<and> consume_events scripted_worker (PStr ''T'')
       (returning completed_result) PNone (scripted_state [Inr (Some task_t1)] [] []) =
     [PollForTask (PStr ''T'') (PStr ''worker-1'') PNone, AckTask (PStr ''t1'') (PStr ''worker-1''),
      ThreadStart [(''taskId'', PStr ''t1'')]]
   \<and> poll_and_execute_events example_float example_sleep scripted_worker (PStr ''T'')
       (returning completed_result) PNone
       (scripted_state [Inr (Some task_t1)] [Inr (PBool False)] []) =
     [PollForTask (PStr ''T'') (PStr ''worker-1'') PNone, AckTask (PStr ''t1'') (PStr ''worker-1'')]
   \<and> consume_events scripted_worker (PStr ''T'')
       (returning completed_result) PNone
       (scripted_state [Inr (Some task_t1)] [Inr (PBool False)] []) =
     [PollForTask (PStr ''T'') (PStr ''worker-1'') PNone, AckTask (PStr ''t1'') (PStr ''worker-1'')]
   \<and> poll_and_execute_events example_float example_sleep scripted_worker (PStr ''T'')
       (returning completed_result) PNone (scripted_state [] [] []) =
     [PollForTask (PStr ''T'') (PStr ''worker-1'') PNone]
   \<and> consume_events scripted_worker (PStr ''T'')
       (returning completed_result) PNone (scripted_state [] [] []) =
     [PollForTask (PStr ''T'') (PStr ''worker-1'') PNone]"
proof -
  let ?A = "scripted_state [Inr (Some task_t1)] [] []"
  let ?B = "scripted_state [Inr (Some task_t1)] [Inr (PBool False)] []"
  let ?C = "scripted_state [] [] []"
  let ?f = "returning completed_result"
  have pB: "pollForTask (taskClient scripted_worker) (PStr ''T'') (worker_id scripted_worker) PNone (remote ?B)
              = (Inr (Some task_t1), \<lparr>polls = [], acks = [Inr (PBool False)], updates = [], received = []\<rparr>)"
    by (simp add: scripted_simps scripted_state_def)
  have aB: "ackTask (taskClient scripted_worker) (PStr ''t1'') (worker_id scripted_worker)
              \<lparr>polls = [], acks = [Inr (PBool False)], updates = [], received = []\<rparr>
              = (Inr (PBool False), \<lparr>polls = [], acks = [], updates = [], received = []\<rparr>)"
    by (simp add: scripted_simps)
  have pC: "pollForTask (taskClient scripted_worker) (PStr ''T'') (worker_id scripted_worker) PNone (remote ?C)
              = (Inr None, remote ?C)"
    by (simp add: scripted_simps scripted_state_def)
  have tid: "getitem task_t1 ''taskId'' = Inr (PStr ''t1'')"
    by (simp add: getitem_def task_t1_def)
  have tA: "ThreadStart task_t1 \<in> set (consume_events scripted_worker (PStr ''T'') ?f PNone ?A)"
    by (simp add: consume_events_def new_events_def run_defs)
  have uA: "poll_and_execute_events example_float example_sleep scripted_worker (PStr ''T'') ?f PNone ?A
              = [PollForTask (PStr ''T'') (PStr ''worker-1'') PNone,
                 AckTask (PStr ''t1'') (PStr ''worker-1''), ExecFunction [(''taskId'', PStr ''t1'')],
                 UpdateTask [(''taskId'', PStr ''t1''), (''status'', PStr ''COMPLETED''),
                   (''outputData'', PDict [(''x'', PInt 1)]), (''logs'', PList [])]]"
    by (simp add: poll_and_execute_events_def new_events_def run_defs)
  have uB: "poll_and_execute_events example_float example_sleep scripted_worker (PStr ''T'') ?f PNone ?B
              = [PollForTask (PStr ''T'') (PStr ''worker-1'') PNone,
                 AckTask (PStr ''t1'') (PStr ''worker-1'')]"
    by (simp add: poll_and_execute_events_def new_events_def run_defs)
  have uC: "poll_and_execute_events example_float example_sleep scripted_worker (PStr ''T'') ?f PNone ?C
              = [PollForTask (PStr ''T'') (PStr ''worker-1'') PNone]"
    by (simp add: poll_and_execute_events_def new_events_def run_defs)
  note A = execute_only_after_ack[of example_float example_sleep scripted_worker "PStr ''T''" ?f PNone ?A]
  note B = execute_only_after_ack[of example_float example_sleep scripted_worker "PStr ''T''" ?f PNone ?B]
  note C = execute_only_after_ack[of example_float example_sleep scripted_worker "PStr ''T''" ?f PNone ?C]
  from A tA have cA: "consume_events scripted_worker (PStr ''T'') ?f PNone ?A =
     [PollForTask (PStr ''T'') (PStr ''worker-1'') PNone, AckTask (PStr ''t1'') (PStr ''worker-1''),
      ThreadStart [(''taskId'', PStr ''t1'')]]"
    using tid by (auto simp: scripted_simps task_t1_def)
  from B pB aB tid have cB: "consume_events scripted_worker (PStr ''T'') ?f PNone ?B =
     [PollForTask (PStr ''T'') (PStr ''worker-1'') PNone, AckTask (PStr ''t1'') (PStr ''worker-1'')]"
    by (auto simp: scripted_simps)
  from C pC have cC: "consume_events scripted_worker (PStr ''T'') ?f PNone ?C =
     [PollForTask (PStr ''T'') (PStr ''worker-1'') PNone]"
    by (auto simp: scripted_simps)
  from uA uB uC cA cB cC show ?thesis by blast
qed

text \<open>
  C5. \<open>consume\<close> returns the first time \<open>pollForTask\<close> returns no task: after any
  number of passes that each polled a task, a poll that returns \<open>None\<close> ends the loop,
  and that last pass has made the poll and no other call. In particular, when the first
  poll returns \<open>None\<close>, \<open>consume\<close> returns after exactly one poll, without any
  \<open>ackTask\<close> and without starting an execution.
\<close>

theorem consume_returns_on_empty_poll:
  assumes "consume_passes n self taskType exec_function domain s = Some sn"
    and "pollForTask (taskClient self) taskType (worker_id self) domain (remote sn) = (Inr None, w)"
  shows "consume self taskType exec_function domain limit check_existing_tasks s =
           Some (Inr (), sn\<lparr>remote := w,
                   trace := trace sn @ [PollForTask taskType (worker_id self) domain]\<rparr>)"
  using assms(1)
proof (induction n arbitrary: s)
  case 0
  then have "s = sn" by simp
  with consume_body_no_task[OF assms(2), of exec_function] show ?case
    by (simp add: consume_break)
next
  case (Suc n)
  obtain r s' where b: "consume_body self taskType exec_function domain s = (r, s')"
    by (cases "consume_body self taskType exec_function domain s")
  with Suc.prems have r: "r = Inr Continue" and p: "consume_passes n self taskType exec_function domain s' = Some sn"
    by (auto split: sum.splits flow.splits)
  from consume_continue[OF b[unfolded r]] Suc.IH[OF p] show ?case by simp
qed

theorem consume_returns_on_empty_poll_witness:
  "consume scripted_worker (PStr ''T'') (returning completed_result) PNone (PInt 0) (PBool True)
     (scripted_state [] [] []) =
     Some (Inr (), \<lparr>remote = \<lparr>polls = [], acks = [], updates = [], received = []\<rparr>,
              trace = [PollForTask (PStr ''T'') (PStr ''worker-1'') PNone], stdout = []\<rparr>)
   \<and> consume scripted_worker (PStr ''T'') (returning completed_result) PNone (PInt 0) (PBool True)
     (scripted_state [Inr (Some task_t1)] [] []) =
     Some (Inr (), \<lparr>remote = \<lparr>polls = [], acks = [], updates = [], received = []\<rparr>,
              trace = [PollForTask (PStr ''T'') (PStr ''worker-1'') PNone,
                AckTask (PStr ''t1'') (PStr ''worker-1''), ThreadStart [(''taskId'', PStr ''t1'')],
                PollForTask (PStr ''T'') (PStr ''worker-1'') PNone], stdout = []\<rparr>)"
proof -
  let ?f = "returning completed_result"
  let ?w = "\<lparr>polls = [], acks = [], updates = [], received = []\<rparr>"
  let ?s1 = "\<lparr>remote = ?w, trace = [PollForTask (PStr ''T'') (PStr ''worker-1'') PNone,
                AckTask (PStr ''t1'') (PStr ''worker-1''), ThreadStart [(''taskId'', PStr ''t1'')]],
              stdout = []\<rparr>"
  have p0: "consume_passes 0 scripted_worker (PStr ''T'') ?f PNone (scripted_state [] [] [])
              = Some (scripted_state [] [] [])"
    by simp
  have e0: "pollForTask (taskClient scripted_worker) (PStr ''T'') (worker_id scripted_worker) PNone
              (remote (scripted_state [] [] [])) = (Inr None, ?w)"
    by (simp add: scripted_simps scripted_state_def)
  have p1: "consume_passes (Suc 0) scripted_worker (PStr ''T'') ?f PNone
              (scripted_state [Inr (Some task_t1)] [] []) = Some ?s1"
    by (simp add: run_defs)
  have e1: "pollForTask (taskClient scripted_worker) (PStr ''T'') (worker_id scripted_worker) PNone
              (remote ?s1) = (Inr None, ?w)"
    by (simp add: scripted_simps)
  show ?thesis
    using consume_returns_on_empty_poll[OF p0 e0, of "PInt 0" "PBool True"]
      consume_returns_on_empty_poll[OF p1 e1, of "PInt 0" "PBool True"]
    by (simp add: scripted_simps scripted_state_def)
qed





section \<open>Properties of the construction\<close>

text \<open>
  C8. The constructor passes \<open>thread_count\<close> and \<open>polling_interval\<close> through \<open>float\<close>.
  Once the client manager is built, construction raises exactly when \<open>float\<close> raises on
  one of the two arguments; when both convert, construction succeeds and the worker
  holds the two converted values.
\<close>

theorem construction_coerces:
  assumes "WFClientMgr server_url = Inr (wfc, tc)"
  shows "(isl (ConductorWorker_init py_float WFClientMgr hostname server_url
                 thread_count_arg polling_interval_arg worker_id_arg)
            \<longleftrightarrow> isl (py_float thread_count_arg) \<or> isl (py_float polling_interval_arg))
       \<and> (\<forall>tcount interval.
             py_float thread_count_arg = Inr tcount \<and> py_float polling_interval_arg = Inr interval
             \<longrightarrow> (\<exists>self. ConductorWorker_init py_float WFClientMgr hostname server_url
                            thread_count_arg polling_interval_arg worker_id_arg = Inr self
                        \<and> thread_count self = tcount \<and> polling_interval self = interval
                        \<and> taskClient self = tc \<and> workflowClient self = wfc))"
  using assms
  by (cases "py_float thread_count_arg"; cases "py_float polling_interval_arg")
     (simp_all add: ConductorWorker_init_def)

theorem construction_coerces_witness:
  "ConductorWorker_init example_float (\<lambda>url. Inr ((), scripted_client)) ''host-1''
     (PStr ''http://localhost:8080/api'') (PInt 5) (PFloat (1 / 10)) default_worker_id =
     Inr \<lparr>workflowClient = (), taskClient = scripted_client, thread_count = PFloat 5,
          polling_interval = PFloat (1 / 10), worker_id = PStr ''host-1''\<rparr>
   \<and> isl (ConductorWorker_init example_float (\<lambda>url. Inr ((), scripted_client)) ''host-1''
     (PStr ''http://localhost:8080/api'') (PStr ''five'') (PFloat (1 / 10)) default_worker_id)
   \<and> isl (ConductorWorker_init example_float (\<lambda>url. Inr ((), scripted_client)) ''host-1''
     (PStr ''http://localhost:8080/api'') default_thread_count PNone default_worker_id)"
proof -
  have m: "(\<lambda>url. Inr ((), scripted_client)) (PStr ''http://localhost:8080/api'')
             = (Inr ((), scripted_client) :: exn + unit \<times> script taskClient)"
    by simp
  have a: "example_float (PInt 5) = Inr (PFloat 5)"
    and b: "example_float (PFloat (1 / 10)) = Inr (PFloat (1 / 10))"
    and c: "isl (example_float (PStr ''five''))"
    and d: "isl (example_float PNone)"
    by (simp_all add: example_float_def)
  show ?thesis
    using construction_coerces[of "\<lambda>url. Inr ((), scripted_client)" "PStr ''http://localhost:8080/api''"
        "()" scripted_client example_float "''host-1''" "PInt 5" "PFloat (1 / 10)" default_worker_id, OF m]
      construction_coerces[of "\<lambda>url. Inr ((), scripted_client)" "PStr ''http://localhost:8080/api''"
        "()" scripted_client example_float "''host-1''" "PStr ''five''" "PFloat (1 / 10)" default_worker_id, OF m]
      construction_coerces[of "\<lambda>url. Inr ((), scripted_client)" "PStr ''http://localhost:8080/api''"
        "()" scripted_client example_float "''host-1''" default_thread_count PNone default_worker_id, OF m]
      a b c d
    by (auto simp: ConductorWorker_init_def py_or_def default_worker_id_def)
qed

text \<open>
  C10. For a falsy \<open>worker_id\<close> argument (\<open>None\<close>, which is the default, or the empty
  string among them, and so is every object whose truth value is \<open>False\<close>, such as
  \<^verbatim>\<open>()\<close>) the worker identity is the module-level host name; a truthy \<open>worker_id\<close>
  is stored as given.
\<close>

theorem worker_id_defaults_to_hostname:
  assumes "ConductorWorker_init py_float WFClientMgr hostname server_url
             thread_count_arg polling_interval_arg worker_id_arg = Inr self"
  shows "(\<not> truthy worker_id_arg \<longrightarrow> worker_id self = PStr hostname)
       \<and> (truthy worker_id_arg \<longrightarrow> worker_id self = worker_id_arg)
       \<and> \<not> truthy PNone \<and> \<not> truthy default_worker_id \<and> \<not> truthy (PStr '''')"
  using assms
  by (auto simp: ConductorWorker_init_def py_or_def default_worker_id_def
      split: sum.splits prod.splits)

theorem worker_id_defaults_to_hostname_witness:
  "worker_id (projr (ConductorWorker_init example_float (\<lambda>url. Inr ((), scripted_client)) ''host-1''
     (PStr ''http://localhost:8080/api'') (PInt 5) (PFloat (1 / 10)) default_worker_id)) = PStr ''host-1''
   \<and> worker_id (projr (ConductorWorker_init example_float (\<lambda>url. Inr ((), scripted_client)) ''host-1''
     (PStr ''http://localhost:8080/api'') (PInt 5) (PFloat (1 / 10)) (PStr ''''))) = PStr ''host-1''
   \<and> worker_id (projr (ConductorWorker_init example_float (\<lambda>url. Inr ((), scripted_client)) ''host-1''
     (PStr ''http://localhost:8080/api'') (PInt 5) (PFloat (1 / 10)) (PStr ''worker-7''))) = PStr ''worker-7''
   \<and> worker_id (projr (ConductorWorker_init example_float (\<lambda>url. Inr ((), scripted_client)) ''host-1''
     (PStr ''http://localhost:8080/api'') (PInt 5) (PFloat (1 / 10)) (PObj ''tuple'' False))) = PStr ''host-1''
   \<and> worker_id (projr (ConductorWorker_init example_float (\<lambda>url. Inr ((), scripted_client)) ''host-1''
     (PStr ''http://localhost:8080/api'') (PInt 5) (PFloat (1 / 10)) (PObj ''tuple'' True)))
       = PObj ''tuple'' True"
proof -
  let ?init = "ConductorWorker_init example_float (\<lambda>url. Inr ((), scripted_client)) ''host-1''
     (PStr ''http://localhost:8080/api'') (PInt 5) (PFloat (1 / 10))"
  have ok: "?init w = Inr (projr (?init w))" for w
    by (simp add: ConductorWorker_init_def example_float_def)
  show ?thesis
    using worker_id_defaults_to_hostname[OF ok[of default_worker_id]]
      worker_id_defaults_to_hostname[OF ok[of "PStr ''''"]]
      worker_id_defaults_to_hostname[OF ok[of "PStr ''worker-7''"]]
      worker_id_defaults_to_hostname[OF ok[of "PObj ''tuple'' False"]]
      worker_id_defaults_to_hostname[OF ok[of "PObj ''tuple'' True"]]
    by (simp add: default_worker_id_def)
qed

end
